theory Spec2Isabelle
  imports Complex_Main "HOL-Library.AList" "HOL-Library.Sublist"
begin

section \<open>The client-side TTL cache of \<^verbatim>\<open>src/lib/api.ts\<close>\<close>

text \<open>
  The class \<^verbatim>\<open>ApiClient\<close> holds \<^verbatim>\<open>cache: Map<string, CacheEntry<any>>\<close>.
  A JavaScript \<^verbatim>\<open>Map\<close> keeps its entries in insertion order, one entry per key;
  it is modelled as an association list whose operations are those of the \<^verbatim>\<open>Map\<close>:
  \<^verbatim>\<open>get\<close> is \<^const>\<open>map_of\<close>, \<^verbatim>\<open>set\<close> is \<^const>\<open>AList.update\<close> (overwrite in place,
  or append), \<^verbatim>\<open>delete\<close> is \<^const>\<open>AList.delete\<close>, \<^verbatim>\<open>clear\<close> gives the empty list.
  Every method that touches \<^verbatim>\<open>this.cache\<close> takes the cache and returns it.
  \<^verbatim>\<open>Date.now()\<close> (milliseconds) is a parameter \<open>now\<close> of the methods that read it.
  The cached payload has the TypeScript type parameter \<^verbatim>\<open>T\<close>, here \<open>'v\<close>; the result
  type \<^verbatim>\<open>T | null\<close> is \<open>'v option\<close>.
\<close>

record 'v CacheEntry =
  data :: 'v
  timestamp :: int
  ttl :: int

type_synonym 'v Cache = "(string \<times> 'v CacheEntry) list"

definition DEFAULT_TTL :: int where
  "DEFAULT_TTL = 5 * 60 * 1000"

definition PROJECT_LIST_TTL :: int where
  "PROJECT_LIST_TTL = 2 * 60 * 1000"

definition TRAINING_SUMMARY_TTL :: int where
  "TRAINING_SUMMARY_TTL = 30 * 60 * 1000"

text \<open>\<^verbatim>\<open>params.join(':')\<close>: the arguments, already converted to strings, with the
  separator between neighbours.\<close>

fun join :: "string \<Rightarrow> string list \<Rightarrow> string" where
  "join sep [] = []"
| "join sep [p] = p"
| "join sep (p # q # ps) = p @ sep @ join sep (q # ps)"

text \<open>\<^verbatim>\<open>`${method}:${params.join(':')}`\<close>\<close>

definition getCacheKey :: "string \<Rightarrow> string list \<Rightarrow> string" where
  "getCacheKey method params = method @ '':'' @ join '':'' params"

text \<open>\<^verbatim>\<open>Date.now() - entry.timestamp < entry.ttl\<close>\<close>

definition isValidCache :: "int \<Rightarrow> 'v CacheEntry \<Rightarrow> bool" where
  "isValidCache now entry = (now - timestamp entry < ttl entry)"

text \<open>\<^verbatim>\<open>getFromCache\<close>: a valid entry gives its data and leaves the cache alone; an
  entry that is present and not valid is deleted; the result is then \<^verbatim>\<open>null\<close>.\<close>

definition getFromCache :: "int \<Rightarrow> string \<Rightarrow> 'v Cache \<Rightarrow> 'v option \<times> 'v Cache" where
  "getFromCache now key cache =
     (case map_of cache key of
        Some entry \<Rightarrow>
          if isValidCache now entry then (Some (data entry), cache)
          else (None, AList.delete key cache)
      | None \<Rightarrow> (None, cache))"

definition setCache :: "int \<Rightarrow> string \<Rightarrow> 'v \<Rightarrow> int \<Rightarrow> 'v Cache \<Rightarrow> 'v Cache" where
  "setCache now key d t cache =
     AList.update key \<lparr>data = d, timestamp = now, ttl = t\<rparr> cache"

text \<open>\<^verbatim>\<open>key.includes(pattern)\<close>: the pattern occurs in the key at some position; the
  empty pattern occurs in every key.\<close>

fun str_includes :: "string \<Rightarrow> string \<Rightarrow> bool" where
  "str_includes [] pattern = (pattern = [])"
| "str_includes (c # cs) pattern = (prefix pattern (c # cs) \<or> str_includes cs pattern)"

text \<open>\<^verbatim>\<open>invalidateCache\<close>: the loop over \<^verbatim>\<open>this.cache.keys()\<close>, deleting as it goes.
  Deleting the key under the iterator does not disturb a \<^verbatim>\<open>Map\<close> iteration, so the
  loop visits every key of the cache as it was at the start.\<close>

definition invalidateCache :: "string \<Rightarrow> 'v Cache \<Rightarrow> 'v Cache" where
  "invalidateCache pattern cache =
     fold (\<lambda>key c. if str_includes key pattern then AList.delete key c else c)
       (map fst cache) cache"

definition clearCache :: "'v Cache \<Rightarrow> 'v Cache" where
  "clearCache cache = []"

text \<open>\<^verbatim>\<open>invalidateProjectCache(projectId?)\<close>: the argument is optional, and the test
  \<^verbatim>\<open>if (projectId)\<close> is false for \<^verbatim>\<open>undefined\<close> and for the empty string alike.\<close>

definition invalidateProjectCache :: "string option \<Rightarrow> 'v Cache \<Rightarrow> 'v Cache" where
  "invalidateProjectCache projectId cache =
     (case projectId of
        Some pid \<Rightarrow>
          if pid \<noteq> [] then invalidateCache pid cache
          else invalidateCache ''getProjectStatus'' (invalidateCache ''listProjects'' cache)
      | None \<Rightarrow> invalidateCache ''getProjectStatus'' (invalidateCache ''listProjects'' cache))"

text \<open>\<^verbatim>\<open>isCached\<close> reads the map and nothing else; it returns the cache it was given.\<close>

definition isCached :: "int \<Rightarrow> string \<Rightarrow> string list \<Rightarrow> 'v Cache \<Rightarrow> bool \<times> 'v Cache" where
  "isCached now method params cache =
     (let cacheKey = getCacheKey method params in
      case map_of cache cacheKey of
        Some entry \<Rightarrow> (isValidCache now entry, cache)
      | None \<Rightarrow> (False, cache))"

text \<open>\<^verbatim>\<open>getCacheStats\<close>: one pass over \<^verbatim>\<open>this.cache.values()\<close> counting valid and
  expired entries. The field \<^verbatim>\<open>hitRate\<close> is the string
  \<^verbatim>\<open>((valid / total) * 100).toFixed(1) + '%'\<close>; the floating-point formatting is the
  parameter \<open>toFixed1\<close>, given \<open>valid\<close> and \<open>total\<close>.\<close>

record CacheStats =
  total :: nat
  valid :: nat
  expired :: nat
  hitRate :: string

fun countEntries :: "int \<Rightarrow> 'v CacheEntry list \<Rightarrow> nat \<times> nat \<Rightarrow> nat \<times> nat" where
  "countEntries now [] (v, e) = (v, e)"
| "countEntries now (entry # es) (v, e) =
     (if isValidCache now entry then countEntries now es (v + 1, e)
      else countEntries now es (v, e + 1))"

definition getCacheStats ::
  "(nat \<Rightarrow> nat \<Rightarrow> string) \<Rightarrow> int \<Rightarrow> 'v Cache \<Rightarrow> CacheStats \<times> 'v Cache" where
  "getCacheStats toFixed1 now cache =
     (let (v, e) = countEntries now (map snd cache) (0, 0);
          tot = v + e;
          rate = (if tot > 0 then toFixed1 v tot @ ''%'' else ''0%'')
      in (\<lparr>total = tot, valid = v, expired = e, hitRate = rate\<rparr>, cache))"

section \<open>The API client's operations\<close>

text \<open>
  Every operation awaits one \<^verbatim>\<open>fetch\<close>. Its outcome is a parameter of the model: the
  promise rejects (no response; the browser's \<^verbatim>\<open>TypeError\<close>), or it resolves to a
  response with \<^verbatim>\<open>ok\<close>, \<^verbatim>\<open>status\<close>, \<^verbatim>\<open>statusText\<close> and a body.
  \<^verbatim>\<open>response.json()\<close> rejects with a \<^verbatim>\<open>SyntaxError\<close> when the body is not JSON
  (\<open>Inl\<close>, with the parser's message); otherwise it resolves to the parsed value, which
  the code reads in two ways: its property \<^verbatim>\<open>detail\<close> (the declared type
  \<^verbatim>\<open>ApiError\<close>; the empty string stands for a missing or empty field, which
  \<^verbatim>\<open>||\<close> treats alike) and the value as the operation's typed result.
  \<^verbatim>\<open>response.blob()\<close> gives the raw body. The request (URL, method, body) is not part
  of the model, so arguments that only travel in the request are left out.
  A thrown error is \<open>Inl\<close>; \<^verbatim>\<open>console.error\<close> followed by \<^verbatim>\<open>throw error\<close> in the
  \<^verbatim>\<open>catch\<close> blocks rethrows the same error.
\<close>

datatype JsError = Error string | TypeError string | SyntaxError string

text \<open>\<^verbatim>\<open>err.message\<close>\<close>

fun err_message :: "JsError \<Rightarrow> string" where
  "err_message (Error m) = m"
| "err_message (TypeError m) = m"
| "err_message (SyntaxError m) = m"

record 'r Json =
  detail :: string
  result :: 'r

record ('r, 'b) Response =
  ok :: bool
  status :: nat
  statusText :: string
  json :: "string + 'r Json"
  blob :: 'b

datatype ('r, 'b) FetchResult = Rejected string | Resolved "('r, 'b) Response"

text \<open>The decimal numeral of \<^verbatim>\<open>response.status\<close> inside a template string.\<close>

function decimal :: "nat \<Rightarrow> string" where
  "decimal n =
     (if n < 10 then [''0123456789'' ! n]
      else decimal (n div 10) @ [''0123456789'' ! (n mod 10)])"
  by pat_completeness auto
termination
  by (relation "measure id") auto

declare decimal.simps [simp del]

text \<open>The block every operation but the two downloads runs on \<^verbatim>\<open>!response.ok\<close>:
  \<^verbatim>\<open>const errorData: ApiError = await response.json();
  throw new Error(errorData.detail || `HTTP error! status: ${response.status}`);\<close>\<close>

definition httpError :: "('r, 'b) Response \<Rightarrow> JsError" where
  "httpError response =
     (case json response of
        Inl parseMessage \<Rightarrow> SyntaxError parseMessage
      | Inr errorData \<Rightarrow>
          Error (if detail errorData \<noteq> [] then detail errorData
                 else ''HTTP error! status: '' @ decimal (status response)))"

text \<open>The downloads wrap the parse in \<^verbatim>\<open>try\<close>/\<^verbatim>\<open>catch\<close>:
  \<^verbatim>\<open>let errorMessage = `HTTP error! status: ${response.status}`;
  try { const errorData = await response.json();
        errorMessage = errorData.detail || errorMessage; }
  catch { errorMessage = response.statusText || errorMessage; }
  throw new Error(errorMessage);\<close>\<close>

definition downloadError :: "('r, 'b) Response \<Rightarrow> JsError" where
  "downloadError response =
     (let errorMessage = ''HTTP error! status: '' @ decimal (status response) in
      Error (case json response of
               Inr errorData \<Rightarrow>
                 if detail errorData \<noteq> [] then detail errorData else errorMessage
             | Inl parseMessage \<Rightarrow>
                 if statusText response \<noteq> [] then statusText response else errorMessage))"

definition createProject ::
  "('r, 'b) FetchResult \<Rightarrow> 'v Cache \<Rightarrow> (JsError + 'r) \<times> 'v Cache" where
  "createProject net cache =
     (case net of
        Rejected m \<Rightarrow> (Inl (TypeError m), cache)
      | Resolved response \<Rightarrow>
          if \<not> ok response then (Inl (httpError response), cache)
          else (case json response of
                  Inl parseMessage \<Rightarrow> (Inl (SyntaxError parseMessage), cache)
                | Inr body \<Rightarrow> (Inr (result body), invalidateProjectCache None cache)))"

text \<open>\<^verbatim>\<open>getProjectStatus\<close>: \<open>now\<close> is the clock at the lookup, \<open>now'\<close> the clock when
  the result is stored, after the network call.\<close>

definition getProjectStatus ::
  "int \<Rightarrow> int \<Rightarrow> string \<Rightarrow> ('v, 'b) FetchResult \<Rightarrow> 'v Cache \<Rightarrow> (JsError + 'v) \<times> 'v Cache" where
  "getProjectStatus now now' projectId net cache =
     (let cacheKey = getCacheKey ''getProjectStatus'' [projectId];
          (cached, cache1) = getFromCache now cacheKey cache
      in case cached of
           Some v \<Rightarrow> (Inr v, cache1)
         | None \<Rightarrow>
             (case net of
                Rejected m \<Rightarrow> (Inl (TypeError m), cache1)
              | Resolved response \<Rightarrow>
                  if \<not> ok response then (Inl (httpError response), cache1)
                  else (case json response of
                          Inl parseMessage \<Rightarrow> (Inl (SyntaxError parseMessage), cache1)
                        | Inr body \<Rightarrow>
                            (Inr (result body),
                             setCache now' cacheKey (result body) (30 * 1000) cache1))))"

definition uploadDataset ::
  "string \<Rightarrow> ('r, 'b) FetchResult \<Rightarrow> 'v Cache \<Rightarrow> (JsError + 'r) \<times> 'v Cache" where
  "uploadDataset projectId net cache =
     (case net of
        Rejected m \<Rightarrow> (Inl (TypeError m), cache)
      | Resolved response \<Rightarrow>
          if \<not> ok response then (Inl (httpError response), cache)
          else (case json response of
                  Inl parseMessage \<Rightarrow> (Inl (SyntaxError parseMessage), cache)
                | Inr body \<Rightarrow>
                    (Inr (result body), invalidateProjectCache (Some projectId) cache)))"

text \<open>\<^verbatim>\<open>startTraining(trainingRequest)\<close>: of the request only
  \<^verbatim>\<open>trainingRequest.project_id\<close> reaches the cache.\<close>

definition startTraining ::
  "string \<Rightarrow> ('r, 'b) FetchResult \<Rightarrow> 'v Cache \<Rightarrow> (JsError + 'r) \<times> 'v Cache" where
  "startTraining project_id net cache =
     (case net of
        Rejected m \<Rightarrow> (Inl (TypeError m), cache)
      | Resolved response \<Rightarrow>
          if \<not> ok response then (Inl (httpError response), cache)
          else (case json response of
                  Inl parseMessage \<Rightarrow> (Inl (SyntaxError parseMessage), cache)
                | Inr body \<Rightarrow>
                    (Inr (result body), invalidateProjectCache (Some project_id) cache)))"

definition deleteProject ::
  "string \<Rightarrow> ('r, 'b) FetchResult \<Rightarrow> 'v Cache \<Rightarrow> (JsError + 'r) \<times> 'v Cache" where
  "deleteProject projectId net cache =
     (case net of
        Rejected m \<Rightarrow> (Inl (TypeError m), cache)
      | Resolved response \<Rightarrow>
          if \<not> ok response then (Inl (httpError response), cache)
          else (case json response of
                  Inl parseMessage \<Rightarrow> (Inl (SyntaxError parseMessage), cache)
                | Inr body \<Rightarrow>
                    (Inr (result body), invalidateProjectCache (Some projectId) cache)))"

text \<open>\<^verbatim>\<open>getTrainingStatus\<close> and \<^verbatim>\<open>getTrainingLogs\<close> never touch the cache.\<close>

definition getTrainingStatus :: "('r, 'b) FetchResult \<Rightarrow> JsError + 'r" where
  "getTrainingStatus net =
     (case net of
        Rejected m \<Rightarrow> Inl (TypeError m)
      | Resolved response \<Rightarrow>
          if \<not> ok response then Inl (httpError response)
          else (case json response of
                  Inl parseMessage \<Rightarrow> Inl (SyntaxError parseMessage)
                | Inr body \<Rightarrow> Inr (result body)))"

definition getTrainingLogs :: "('r, 'b) FetchResult \<Rightarrow> JsError + 'r" where
  "getTrainingLogs net =
     (case net of
        Rejected m \<Rightarrow> Inl (TypeError m)
      | Resolved response \<Rightarrow>
          if \<not> ok response then Inl (httpError response)
          else (case json response of
                  Inl parseMessage \<Rightarrow> Inl (SyntaxError parseMessage)
                | Inr body \<Rightarrow> Inr (result body)))"

text \<open>The interface \<^verbatim>\<open>TrainingSummary\<close>. The nested \<^verbatim>\<open>summary\<close> object and
  \<^verbatim>\<open>training_metrics\<close> play no part in the client and live in the record's extension.\<close>

datatype AiSummaryStatus = ai_not_generated | ai_generating | ai_completed | ai_failed

record TrainingSummary =
  project_id :: string
  training_id :: string
  project_name :: string
  ai_summary_status :: AiSummaryStatus
  ai_summary_error :: "string option"
  gpu_used :: string

definition getTrainingSummary ::
  "int \<Rightarrow> int \<Rightarrow> string \<Rightarrow> string \<Rightarrow> ('x TrainingSummary_scheme, 'b) FetchResult \<Rightarrow>
   'x TrainingSummary_scheme Cache \<Rightarrow>
   (JsError + 'x TrainingSummary_scheme) \<times> 'x TrainingSummary_scheme Cache" where
  "getTrainingSummary now now' projectId trainingId net cache =
     (let cacheKey = getCacheKey ''getTrainingSummary'' [projectId, trainingId];
          (cached, cache1) = getFromCache now cacheKey cache
      in case cached of
           Some v \<Rightarrow> (Inr v, cache1)
         | None \<Rightarrow>
             (case net of
                Rejected m \<Rightarrow> (Inl (TypeError m), cache1)
              | Resolved response \<Rightarrow>
                  if \<not> ok response then (Inl (httpError response), cache1)
                  else (case json response of
                          Inl parseMessage \<Rightarrow> (Inl (SyntaxError parseMessage), cache1)
                        | Inr body \<Rightarrow>
                            (Inr (result body),
                             if ai_summary_status (result body) = ai_completed
                             then setCache now' cacheKey (result body) TRAINING_SUMMARY_TTL cache1
                             else if ai_summary_status (result body) = ai_generating
                             then setCache now' cacheKey (result body) (10 * 1000) cache1
                             else cache1))))"

definition downloadModelWeights :: "('r, 'b) FetchResult \<Rightarrow> JsError + 'b" where
  "downloadModelWeights net =
     (case net of
        Rejected m \<Rightarrow> Inl (TypeError m)
      | Resolved response \<Rightarrow>
          if \<not> ok response then Inl (downloadError response) else Inr (blob response))"

definition downloadProjectCode :: "('r, 'b) FetchResult \<Rightarrow> JsError + 'b" where
  "downloadProjectCode net =
     (case net of
        Rejected m \<Rightarrow> Inl (TypeError m)
      | Resolved response \<Rightarrow>
          if \<not> ok response then Inl (downloadError response) else Inr (blob response))"

section \<open>The pollers of the training pages\<close>

subsection \<open>\<^verbatim>\<open>TrainingMonitor\<close> (\<^verbatim>\<open>src/app/training/[projectId]/[trainingId]/page.tsx\<close>)\<close>

text \<open>
  The component keeps its state in \<^verbatim>\<open>useState\<close> cells (\<open>MonitorState\<close>). Each render
  binds the cells' current values to \<^verbatim>\<open>const\<close> names (\<^verbatim>\<open>trainingData\<close>,
  \<^verbatim>\<open>isMounted\<close>, ...); the functions an effect defines close over the bindings of the
  render the effect ran in. So every function of the effect takes two states: \<open>r\<close>, the
  values of that render, which it reads, and \<open>s\<close>, the cells, which the setters write.
  The effect's own \<^verbatim>\<open>let\<close> variables are \<open>PollVars\<close>.
  JavaScript numbers are modelled as rationals: the products by \<^verbatim>\<open>1.5\<close> are exact in
  double precision on the values that occur, \<open>6 / 5\<close> stands for \<^verbatim>\<open>1.2\<close>.
\<close>

datatype TrainingStatus = not_started | queued | running | completed | failed | cancelled

record TrainingResponse =
  training_id :: string
  project_id :: string
  status :: TrainingStatus
  message :: "string option"

record LogsResponse =
  logs :: "string list"
  total_logs :: nat
  last_updated :: "string option"

record MonitorState =
  trainingData :: "TrainingResponse option"
  logs :: "string list"
  lastLogUpdate :: "string option"
  isLoading :: bool
  error :: string
  isAutoScroll :: bool
  isMounted :: bool

record PollVars =
  logPollInterval :: rat
  statusPollInterval :: rat
  failureCount :: nat

definition initialVars :: PollVars where
  "initialVars = \<lparr>logPollInterval = 3000, statusPollInterval = 8000, failureCount = 0\<rparr>"

text \<open>\<^verbatim>\<open>fetchTrainingStatus\<close> and \<^verbatim>\<open>fetchTrainingLogs\<close> take the outcome of the API call
  they await. Both have a \<^verbatim>\<open>catch\<close> that does not rethrow, so both complete normally
  (\<open>Inr ()\<close>) whatever the outcome.\<close>

definition fetchTrainingStatus ::
  "JsError + TrainingResponse \<Rightarrow> MonitorState \<Rightarrow> (JsError + unit) \<times> MonitorState" where
  "fetchTrainingStatus apiResult s =
     (case apiResult of
        Inr response \<Rightarrow> (Inr (), s\<lparr>trainingData := Some response, isLoading := False\<rparr>)
      | Inl err \<Rightarrow> (Inr (), s\<lparr>error := err_message err, isLoading := False\<rparr>))"

definition fetchTrainingLogs ::
  "JsError + LogsResponse \<Rightarrow> MonitorState \<Rightarrow> (JsError + unit) \<times> MonitorState" where
  "fetchTrainingLogs apiResult s =
     (case apiResult of
        Inr logResponse \<Rightarrow>
          (Inr (), s\<lparr>logs := LogsResponse.logs logResponse,
                      lastLogUpdate := last_updated logResponse\<rparr>)
      | Inl err \<Rightarrow> (Inr (), s))"

text \<open>A poll loop: the delay of the pending \<^verbatim>\<open>setTimeout\<close> (if any), the effect's
  variables, the component's cells, the number of API calls issued so far and the delays
  of the timers that have fired.\<close>

record Poll =
  timer :: "rat option"
  vars :: PollVars
  state :: MonitorState
  fetches :: nat
  waited :: "rat list"

text \<open>\<^verbatim>\<open>scheduleLogFetch\<close> and \<^verbatim>\<open>scheduleStatusFetch\<close>: the delay handed to
  \<^verbatim>\<open>setTimeout\<close>, or \<open>None\<close> when no timer is set.\<close>

definition scheduleLogFetch :: "MonitorState \<Rightarrow> PollVars \<Rightarrow> rat option" where
  "scheduleLogFetch r v =
     (if \<not> isMounted r then None
      else if map_option status (trainingData r) = Some running
              \<or> map_option status (trainingData r) = Some queued
      then Some (logPollInterval v)
      else None)"

definition scheduleStatusFetch :: "MonitorState \<Rightarrow> PollVars \<Rightarrow> rat option" where
  "scheduleStatusFetch r v =
     (if \<not> isMounted r then None
      else if map_option status (trainingData r) = Some running
              \<or> map_option status (trainingData r) = Some queued
      then Some (statusPollInterval v)
      else None)"

text \<open>The timer callbacks. \<open>apiResult\<close> is the outcome of the API call the callback
  issues when it gets past its first test.\<close>

definition logTimer :: "MonitorState \<Rightarrow> JsError + LogsResponse \<Rightarrow> Poll \<Rightarrow> Poll" where
  "logTimer r apiResult p =
     (if \<not> isMounted r then p\<lparr>timer := None\<rparr>
      else
        case fetchTrainingLogs apiResult (state p) of
          (Inr u, s') \<Rightarrow>
            (let v' = (vars p)\<lparr>failureCount := 0\<rparr> in
             p\<lparr>timer := scheduleLogFetch r v', vars := v', state := s',
               fetches := fetches p + 1\<rparr>)
        | (Inl err, s') \<Rightarrow>
            (let v' = (vars p)\<lparr>failureCount := failureCount (vars p) + 1,
                                logPollInterval := min (logPollInterval (vars p) * (3 / 2)) 30000\<rparr>
             in p\<lparr>timer := (if isMounted r then scheduleLogFetch r v' else None),
                  vars := v', state := s', fetches := fetches p + 1\<rparr>))"

definition statusTimer :: "MonitorState \<Rightarrow> JsError + TrainingResponse \<Rightarrow> Poll \<Rightarrow> Poll" where
  "statusTimer r apiResult p =
     (if \<not> isMounted r then p\<lparr>timer := None\<rparr>
      else
        case fetchTrainingStatus apiResult (state p) of
          (Inr u, s') \<Rightarrow>
            p\<lparr>timer := (if isMounted r then scheduleStatusFetch r (vars p) else None),
              state := s', fetches := fetches p + 1\<rparr>
        | (Inl err, s') \<Rightarrow>
            (let v' = (vars p)\<lparr>statusPollInterval :=
                                  min (statusPollInterval (vars p) * (6 / 5)) 20000\<rparr>
             in p\<lparr>timer := (if isMounted r then scheduleStatusFetch r v' else None),
                  vars := v', state := s', fetches := fetches p + 1\<rparr>))"

text \<open>What happens to a loop: its timer fires (with the outcome the API call will have),
  or the component unmounts. On unmount the cleanup of the first effect calls
  \<^verbatim>\<open>setIsMounted(false)\<close>; the polling effect returns no cleanup, so a pending timer is
  not cleared.\<close>

datatype 'a Event = TimerFires "JsError + 'a" | Unmount

fun runLogPoll :: "MonitorState \<Rightarrow> LogsResponse Event list \<Rightarrow> Poll \<Rightarrow> Poll" where
  "runLogPoll r [] p = p"
| "runLogPoll r (Unmount # es) p =
     runLogPoll r es (p\<lparr>state := (state p)\<lparr>isMounted := False\<rparr>\<rparr>)"
| "runLogPoll r (TimerFires apiResult # es) p =
     (case timer p of
        None \<Rightarrow> runLogPoll r es p
      | Some d \<Rightarrow> runLogPoll r es (logTimer r apiResult (p\<lparr>waited := waited p @ [d]\<rparr>)))"

fun runStatusPoll :: "MonitorState \<Rightarrow> TrainingResponse Event list \<Rightarrow> Poll \<Rightarrow> Poll" where
  "runStatusPoll r [] p = p"
| "runStatusPoll r (Unmount # es) p =
     runStatusPoll r es (p\<lparr>state := (state p)\<lparr>isMounted := False\<rparr>\<rparr>)"
| "runStatusPoll r (TimerFires apiResult # es) p =
     (case timer p of
        None \<Rightarrow> runStatusPoll r es p
      | Some d \<Rightarrow> runStatusPoll r es (statusTimer r apiResult (p\<lparr>waited := waited p @ [d]\<rparr>)))"

text \<open>The end of the effect body: \<^verbatim>\<open>scheduleLogFetch(); scheduleStatusFetch();\<close> with the
  variables at their initial values, in the render \<open>r\<close> whose cells are \<open>r\<close> itself.\<close>

definition startLogPoll :: "MonitorState \<Rightarrow> Poll" where
  "startLogPoll r =
     \<lparr>timer = scheduleLogFetch r initialVars, vars = initialVars, state = r,
      fetches = 0, waited = []\<rparr>"

definition startStatusPoll :: "MonitorState \<Rightarrow> Poll" where
  "startStatusPoll r =
     \<lparr>timer = scheduleStatusFetch r initialVars, vars = initialVars, state = r,
      fetches = 0, waited = []\<rparr>"

subsection \<open>\<^verbatim>\<open>TrainingCompletion\<close>: \<^verbatim>\<open>startAIPolling\<close>\<close>

text \<open>\<^verbatim>\<open>pollAI\<close> takes the outcome of \<^verbatim>\<open>apiClient.getTrainingSummary\<close>. A toast is
  recorded by its type and duration.\<close>

datatype ToastType = success | warning

record 'x CompletionState =
  summaryData :: "'x TrainingSummary_scheme option"
  isPollingAI :: bool
  toasts :: "(ToastType \<times> nat) list"

record 'x AIPoll =
  aiTimer :: "nat option"
  aiState :: "'x CompletionState"
  aiCalls :: nat

definition pollAI ::
  "JsError + 'x TrainingSummary_scheme \<Rightarrow> 'x AIPoll \<Rightarrow> 'x AIPoll" where
  "pollAI apiResult p =
     (case apiResult of
        Inr summary \<Rightarrow>
          (let s = (aiState p)\<lparr>summaryData := Some summary\<rparr> in
           if ai_summary_status summary = ai_completed then
             p\<lparr>aiTimer := None,
               aiState := s\<lparr>isPollingAI := False, toasts := toasts s @ [(success, 3000)]\<rparr>,
               aiCalls := aiCalls p + 1\<rparr>
           else if ai_summary_status summary = ai_failed then
             p\<lparr>aiTimer := None,
               aiState := s\<lparr>isPollingAI := False, toasts := toasts s @ [(warning, 3000)]\<rparr>,
               aiCalls := aiCalls p + 1\<rparr>
           else if ai_summary_status summary = ai_generating then
             p\<lparr>aiTimer := Some 3000, aiState := s, aiCalls := aiCalls p + 1\<rparr>
           else p\<lparr>aiTimer := None, aiState := s, aiCalls := aiCalls p + 1\<rparr>)
      | Inl err \<Rightarrow>
          p\<lparr>aiTimer := None, aiState := (aiState p)\<lparr>isPollingAI := False\<rparr>,
            aiCalls := aiCalls p + 1\<rparr>)"

definition startAIPolling :: "'x CompletionState \<Rightarrow> 'x AIPoll" where
  "startAIPolling s = \<lparr>aiTimer = Some 3000, aiState = s, aiCalls = 0\<rparr>"

fun runAIPoll ::
  "(JsError + 'x TrainingSummary_scheme) list \<Rightarrow> 'x AIPoll \<Rightarrow> 'x AIPoll" where
  "runAIPoll [] p = p"
| "runAIPoll (apiResult # rs) p =
     (case aiTimer p of
        None \<Rightarrow> p
      | Some d \<Rightarrow> runAIPoll rs (pollAI apiResult p))"

section \<open>Properties of the cache\<close>

lemma str_includes_iff: "str_includes k p \<longleftrightarrow> (\<exists>pre suf. k = pre @ p @ suf)"
proof (induction k)
  case Nil
  then show ?case by simp
next
  case (Cons c cs)
  have "(\<exists>pre suf. c # cs = pre @ p @ suf) \<longleftrightarrow> sublist p (c # cs)"
    by (simp add: sublist_def)
  also have "\<dots> \<longleftrightarrow> prefix p (c # cs) \<or> sublist p cs"
    by (rule sublist_Cons_right)
  also have "\<dots> \<longleftrightarrow> prefix p (c # cs) \<or> str_includes cs p"
    using Cons.IH by (simp add: sublist_def)
  finally show ?case by simp
qed

lemma getFromCache_result:
  "fst (getFromCache now k c) =
     (case map_of c k of
        Some e \<Rightarrow> if now - timestamp e < ttl e then Some (data e) else None
      | None \<Rightarrow> None)"
  by (simp add: getFromCache_def isValidCache_def split: option.splits)

lemma getFromCache_store:
  "map_of (snd (getFromCache now k c)) k' =
     (case map_of c k of
        Some e \<Rightarrow> if k' = k \<and> \<not> now - timestamp e < ttl e then None else map_of c k'
      | None \<Rightarrow> map_of c k')"
  by (simp add: getFromCache_def isValidCache_def AList.delete_conv split: option.splits)

lemma getFromCache_unchanged:
  "fst (getFromCache now k c) \<noteq> None \<Longrightarrow> snd (getFromCache now k c) = c"
  by (simp add: getFromCache_def split: option.splits if_splits)

lemma getFromCache_absent:
  "map_of c k = None \<Longrightarrow> getFromCache now k c = (None, c)"
  by (simp add: getFromCache_def)

lemma getFromCache_expired:
  "map_of c k = Some e \<Longrightarrow> \<not> now - timestamp e < ttl e \<Longrightarrow>
   getFromCache now k c = (None, AList.delete k c)"
  by (simp add: getFromCache_def isValidCache_def)

lemma getFromCache_set:
  "fst (getFromCache now k (setCache t0 k v t c)) = (if now - t0 < t then Some v else None)"
  by (simp add: getFromCache_def setCache_def isValidCache_def AList.update_conv')

lemma fold_delete_filter:
  "fold (\<lambda>key c. if P key then AList.delete key c else c) ks c =
   filter (\<lambda>kv. \<not> (fst kv \<in> set ks \<and> P (fst kv))) c"
proof (induction ks arbitrary: c)
  case Nil
  then show ?case by simp
next
  case (Cons k ks)
  show ?case
  proof (cases "P k")
    case True
    have "filter (\<lambda>kv. \<not> (fst kv \<in> set ks \<and> P (fst kv))) (AList.delete k c) =
          filter (\<lambda>kv. \<not> (fst kv \<in> set (k # ks) \<and> P (fst kv))) c"
      using True by (auto simp: AList.delete_eq intro: filter_cong)
    with True Cons.IH show ?thesis by simp
  next
    case False
    have "filter (\<lambda>kv. \<not> (fst kv \<in> set ks \<and> P (fst kv))) c =
          filter (\<lambda>kv. \<not> (fst kv \<in> set (k # ks) \<and> P (fst kv))) c"
      using False by (auto intro: filter_cong)
    with False Cons.IH show ?thesis by simp
  qed
qed

lemma invalidateCache_filter:
  "invalidateCache p c = filter (\<lambda>kv. \<not> str_includes (fst kv) p) c"
  unfolding invalidateCache_def fold_delete_filter
  by (rule filter_cong) auto

lemma map_of_filter_key:
  "map_of (filter (\<lambda>kv. Q (fst kv)) c) k = (if Q k then map_of c k else None)"
  by (induction c) auto

lemma map_of_invalidateCache:
  "map_of (invalidateCache p c) k = (if str_includes k p then None else map_of c k)"
  unfolding invalidateCache_filter
  using map_of_filter_key [of "\<lambda>k. \<not> str_includes k p" c k] by simp

lemma countEntries_eq:
  "countEntries now es (v, e) =
     (v + length (filter (isValidCache now) es), e + length (filter (\<lambda>x. \<not> isValidCache now x) es))"
  by (induction es arbitrary: v e) auto

lemma getCacheStats_counts:
  "fst (getCacheStats f now c) =
     \<lparr>total = length c,
      valid = length (filter (\<lambda>kv. isValidCache now (snd kv)) c),
      expired = length (filter (\<lambda>kv. \<not> isValidCache now (snd kv)) c),
      hitRate = (if c \<noteq> [] then f (length (filter (\<lambda>kv. isValidCache now (snd kv)) c)) (length c) @ ''%'' else ''0%'')\<rparr>"
proof -
  define nv where "nv = length (filter (\<lambda>kv. isValidCache now (snd kv)) c)"
  define ne where "ne = length (filter (\<lambda>kv. \<not> isValidCache now (snd kv)) c)"
  have len: "nv + ne = length c"
    unfolding nv_def ne_def by (rule sum_length_filter_compl)
  have ce: "countEntries now (map snd c) (0, 0) = (nv, ne)"
    by (simp add: countEntries_eq nv_def ne_def filter_map comp_def)
  have "fst (getCacheStats f now c) =
          \<lparr>total = length c, valid = nv, expired = ne,
           hitRate = (if length c > 0 then f nv (length c) @ ''%'' else ''0%'')\<rparr>"
    unfolding getCacheStats_def ce by (simp only: Let_def split_conv len fst_conv)
  then show ?thesis
    unfolding nv_def ne_def by simp
qed

text \<open>
  Claim C1. A lookup returns a value exactly when the store holds an entry for the key
  whose age \<open>now - timestamp\<close> is strictly below its \<open>ttl\<close>; after
  \<open>setCache t0 k v t\<close> that is exactly when \<open>now - t0 < t\<close>. Otherwise the lookup
  returns \<open>None\<close>; an expired entry is deleted by it, the other keys keep their
  entries, and a second lookup of the key, at any time, returns \<open>None\<close> and leaves
  the store as it is. A lookup that finds no expired entry does not change the store.
\<close>

theorem getFromCache_ttl:
  "fst (getFromCache now k c) =
     (case map_of c k of
        Some e \<Rightarrow> if now - timestamp e < ttl e then Some (data e) else None
      | None \<Rightarrow> None)
   \<and> fst (getFromCache now k (setCache t0 k v t c)) = (if now - t0 < t then Some v else None)
   \<and> (\<forall>e. map_of c k = Some e \<and> \<not> now - timestamp e < ttl e \<longrightarrow>
         (let c' = snd (getFromCache now k c) in
            c' = AList.delete k c
            \<and> map_of c' k = None
            \<and> (\<forall>k'. k' \<noteq> k \<longrightarrow> map_of c' k' = map_of c k')
            \<and> (\<forall>now'. getFromCache now' k c' = (None, c'))))
   \<and> ((\<forall>e. map_of c k = Some e \<longrightarrow> now - timestamp e < ttl e) \<longrightarrow>
         snd (getFromCache now k c) = c)"
proof (intro conjI allI impI)
  show "fst (getFromCache now k c) =
     (case map_of c k of
        Some e \<Rightarrow> if now - timestamp e < ttl e then Some (data e) else None
      | None \<Rightarrow> None)"
    by (rule getFromCache_result)
  show "fst (getFromCache now k (setCache t0 k v t c)) = (if now - t0 < t then Some v else None)"
    by (rule getFromCache_set)
next
  fix e
  assume "map_of c k = Some e \<and> \<not> now - timestamp e < ttl e"
  then have ex: "getFromCache now k c = (None, AList.delete k c)"
    by (simp add: getFromCache_expired)
  have gone: "map_of (AList.delete k c) k = None"
    by (simp add: AList.delete_conv)
  show "let c' = snd (getFromCache now k c) in
            c' = AList.delete k c
            \<and> map_of c' k = None
            \<and> (\<forall>k'. k' \<noteq> k \<longrightarrow> map_of c' k' = map_of c k')
            \<and> (\<forall>now'. getFromCache now' k c' = (None, c'))"
    using gone by (simp add: ex getFromCache_absent)
next
  assume "\<forall>e. map_of c k = Some e \<longrightarrow> now - timestamp e < ttl e"
  then show "snd (getFromCache now k c) = c"
    by (simp add: getFromCache_def isValidCache_def split: option.splits)
qed

theorem getFromCache_ttl_witness:
  "fst (getFromCache 0 ''a'' (setCache 0 ''a'' (1::nat) 1000 [])) = Some 1
   \<and> fst (getFromCache 999 ''a'' (setCache 0 ''a'' (1::nat) 1000 [])) = Some 1
   \<and> getFromCache 1001 ''a'' (setCache 0 ''a'' (1::nat) 1000 []) = (None, [])
   \<and> getFromCache 1002 ''a'' (snd (getFromCache 1001 ''a'' (setCache 0 ''a'' (1::nat) 1000 []))) = (None, [])"
  using getFromCache_ttl [of 1001 "''a''" "setCache 0 ''a'' (1::nat) 1000 []" 0 1 1000]
    getFromCache_ttl [of 999 "''a''" "[]" 0 "1::nat" 1000]
    getFromCache_ttl [of 0 "''a''" "[]" 0 "1::nat" 1000]
  by (simp add: setCache_def getFromCache_def isValidCache_def)

text \<open>
  Claim C2. \<open>invalidateCache p\<close> keeps, in their order and with their value,
  timestamp and ttl, exactly the entries whose key does not contain \<open>p\<close> as a
  substring: the entry of a key is gone when \<open>p\<close> occurs in the key and is the
  former entry otherwise, and a key of the cache is removed iff \<open>p\<close> occurs in it.
\<close>

theorem invalidateCache_exact:
  "invalidateCache p c = filter (\<lambda>(k, e). \<not> (\<exists>pre suf. k = pre @ p @ suf)) c
   \<and> map_of (invalidateCache p c) k =
       (if (\<exists>pre suf. k = pre @ p @ suf) then None else map_of c k)
   \<and> (k \<in> fst ` set c \<longrightarrow>
        (k \<notin> fst ` set (invalidateCache p c) \<longleftrightarrow> (\<exists>pre suf. k = pre @ p @ suf)))"
proof (intro conjI impI)
  show f: "invalidateCache p c = filter (\<lambda>(k, e). \<not> (\<exists>pre suf. k = pre @ p @ suf)) c"
    unfolding invalidateCache_filter
    by (simp add: str_includes_iff split_def)
  show "map_of (invalidateCache p c) k =
       (if (\<exists>pre suf. k = pre @ p @ suf) then None else map_of c k)"
    using map_of_invalidateCache [of p c k] by (simp add: str_includes_iff)
  assume "k \<in> fst ` set c"
  then show "k \<notin> fst ` set (invalidateCache p c) \<longleftrightarrow> (\<exists>pre suf. k = pre @ p @ suf)"
    unfolding invalidateCache_filter
    by (simp add: str_includes_iff [symmetric] image_iff) force
qed

theorem invalidateCache_exact_witness:
  "invalidateCache ''p1''
      [(''getProjectStatus:p1'', \<lparr>data = (1::nat), timestamp = 0, ttl = 30000\<rparr>),
       (''listProjects:20:0'', \<lparr>data = 2, timestamp = 5, ttl = 120000\<rparr>),
       (''getTrainingSummary:p1:t9'', \<lparr>data = 3, timestamp = 7, ttl = 10000\<rparr>)]
     = [(''listProjects:20:0'', \<lparr>data = 2, timestamp = 5, ttl = 120000\<rparr>)]
   \<and> (\<exists>pre suf. ''getProjectStatus:p1'' = pre @ ''p1'' @ suf)"
proof -
  let ?c = "[(''getProjectStatus:p1'', \<lparr>data = (1::nat), timestamp = 0, ttl = 30000\<rparr>),
       (''listProjects:20:0'', \<lparr>data = 2, timestamp = 5, ttl = 120000\<rparr>),
       (''getTrainingSummary:p1:t9'', \<lparr>data = 3, timestamp = 7, ttl = 10000\<rparr>)]"
  have mem: "''getProjectStatus:p1'' \<in> fst ` set ?c" by simp
  have inv: "invalidateCache ''p1'' ?c = [(''listProjects:20:0'', \<lparr>data = 2, timestamp = 5, ttl = 120000\<rparr>)]"
    by (simp add: invalidateCache_def AList.delete_eq)
  have "''getProjectStatus:p1'' \<notin> fst ` set (invalidateCache ''p1'' ?c)"
    unfolding inv by simp
  with invalidateCache_exact [of "''p1''" ?c "''getProjectStatus:p1''"] mem inv
  show ?thesis by blast
qed

lemma isCached_store: "snd (isCached now method params c) = c"
  by (simp add: isCached_def Let_def split: option.splits)

lemma getCacheStats_store: "snd (getCacheStats f now c) = c"
  by (simp add: getCacheStats_def Let_def split: prod.splits)

lemma expired_entry_counted:
  assumes "map_of c k = Some e" and "\<not> isValidCache now e"
  shows "0 < length (filter (\<lambda>kv. \<not> isValidCache now (snd kv)) c)"
proof -
  from assms(1) have "(k, e) \<in> set c" by (rule map_of_SomeD)
  with assms(2) have "(k, e) \<in> set (filter (\<lambda>kv. \<not> isValidCache now (snd kv)) c)" by simp
  then show ?thesis by (simp only: length_greater_0_conv) force
qed

text \<open>
  Claim C9. \<open>isCached\<close> and \<open>getCacheStats\<close> return the store they were given.
  The statistics count every entry, valid or not. An expired entry is therefore still
  in the store after either of them, \<open>isCached\<close> answers \<open>False\<close> for its key, and it
  is counted in \<open>total\<close> and in \<open>expired\<close>; a lookup of its key, an invalidation
  whose pattern occurs in its key, and \<open>clearCache\<close> each remove it.
\<close>

theorem inspection_readonly:
  "snd (isCached now method params c) = c
   \<and> snd (getCacheStats f now c) = c
   \<and> total (fst (getCacheStats f now c)) = length c
   \<and> expired (fst (getCacheStats f now c)) = length (filter (\<lambda>(k, e). \<not> isValidCache now e) c)
   \<and> (map_of c k = Some e \<and> \<not> isValidCache now e \<longrightarrow>
         map_of (snd (isCached now method params c)) k = Some e
       \<and> map_of (snd (getCacheStats f now c)) k = Some e
       \<and> (getCacheKey method params = k \<longrightarrow> fst (isCached now method params c) = False)
       \<and> 0 < expired (fst (getCacheStats f now c))
       \<and> 0 < total (fst (getCacheStats f now c))
       \<and> map_of (snd (getFromCache now k c)) k = None
       \<and> ((\<exists>pre suf. k = pre @ p @ suf) \<longrightarrow> map_of (invalidateCache p c) k = None)
       \<and> map_of (clearCache c) k = None)"
proof (intro conjI impI)
  show "snd (isCached now method params c) = c" by (rule isCached_store)
  show "snd (getCacheStats f now c) = c" by (rule getCacheStats_store)
  show "total (fst (getCacheStats f now c)) = length c"
    by (simp add: getCacheStats_counts)
  show "expired (fst (getCacheStats f now c)) = length (filter (\<lambda>(k, e). \<not> isValidCache now e) c)"
    by (simp add: getCacheStats_counts split_def)
next
  assume h: "map_of c k = Some e \<and> \<not> isValidCache now e"
  then show "map_of (snd (isCached now method params c)) k = Some e"
    by (simp add: isCached_store)
  from h show "map_of (snd (getCacheStats f now c)) k = Some e"
    by (simp add: getCacheStats_store)
  from h show "0 < expired (fst (getCacheStats f now c))"
    using expired_entry_counted [of c k e now] by (simp add: getCacheStats_counts)
  from h have "c \<noteq> []" by auto
  then show "0 < total (fst (getCacheStats f now c))"
    by (simp add: getCacheStats_counts)
  from h show "map_of (snd (getFromCache now k c)) k = None"
    by (simp add: getFromCache_store isValidCache_def)
  show "map_of (clearCache c) k = None"
    by (simp add: clearCache_def)
next
  assume h: "map_of c k = Some e \<and> \<not> isValidCache now e"
  assume "getCacheKey method params = k"
  with h show "fst (isCached now method params c) = False"
    by (simp add: isCached_def)
next
  assume "\<exists>pre suf. k = pre @ p @ suf"
  then show "map_of (invalidateCache p c) k = None"
    by (simp add: map_of_invalidateCache str_includes_iff)
qed

theorem inspection_readonly_witness:
  "isCached 1001 ''m'' [''a''] [(''m:a'', \<lparr>data = (1::nat), timestamp = 0, ttl = 1000\<rparr>)]
     = (False, [(''m:a'', \<lparr>data = 1, timestamp = 0, ttl = 1000\<rparr>)])
   \<and> snd (getCacheStats (\<lambda>v t. []) 1001 [(''m:a'', \<lparr>data = (1::nat), timestamp = 0, ttl = 1000\<rparr>)])
     = [(''m:a'', \<lparr>data = 1, timestamp = 0, ttl = 1000\<rparr>)]
   \<and> total (fst (getCacheStats (\<lambda>v t. []) 1001 [(''m:a'', \<lparr>data = (1::nat), timestamp = 0, ttl = 1000\<rparr>)])) = 1
   \<and> expired (fst (getCacheStats (\<lambda>v t. []) 1001 [(''m:a'', \<lparr>data = (1::nat), timestamp = 0, ttl = 1000\<rparr>)])) = 1
   \<and> snd (getFromCache 1001 ''m:a'' [(''m:a'', \<lparr>data = (1::nat), timestamp = 0, ttl = 1000\<rparr>)]) = []"
proof -
  let ?e = "\<lparr>data = (1::nat), timestamp = 0, ttl = 1000\<rparr>"
  let ?c = "[(''m:a'', ?e)]"
  have hyp: "map_of ?c ''m:a'' = Some ?e \<and> \<not> isValidCache 1001 ?e"
    by (simp add: isValidCache_def)
  have key: "getCacheKey ''m'' [''a''] = ''m:a''"
    by (simp add: getCacheKey_def)
  have del: "snd (getFromCache 1001 ''m:a'' ?c) = []"
    by (simp add: getFromCache_def isValidCache_def AList.delete_eq)
  from inspection_readonly [of 1001 "''m''" "[''a'']" ?c "\<lambda>v t. []" "''m:a''" ?e "''a''"] hyp key del
  show ?thesis
    by (simp add: prod_eq_iff isValidCache_def)
qed

text \<open>
  Claim C10. The key construction is not injective: the method \<open>m\<close> with the one
  argument \<open>a:b\<close> and with the two arguments \<open>a\<close>, \<open>b\<close> gives the same key, so
  \<open>isCached\<close> asked about one call reports the entry stored for the other.
\<close>

theorem getCacheKey_not_injective:
  "getCacheKey ''m'' [''a:b''] = getCacheKey ''m'' [''a'', ''b'']
   \<and> (''m'', [''a:b'']) \<noteq> (''m'', [''a'', ''b''])
   \<and> \<not> inj (\<lambda>(method, params). getCacheKey method params)
   \<and> fst (isCached now ''m'' [''a'', ''b''] (setCache t0 (getCacheKey ''m'' [''a:b'']) v t c))
       = (now - t0 < t)"
proof (intro conjI)
  show eq: "getCacheKey ''m'' [''a:b''] = getCacheKey ''m'' [''a'', ''b'']"
    by (simp add: getCacheKey_def)
  show ne: "(''m'', [''a:b'']) \<noteq> (''m'', [''a'', ''b''])" by simp
  show "\<not> inj (\<lambda>(method, params). getCacheKey method params)"
  proof
    assume "inj (\<lambda>(method, params). getCacheKey method params)"
    then have "(''m'', [''a:b'']) = (''m'', [''a'', ''b''])"
      using eq by (auto dest!: injD [where x = "(''m'', [''a:b''])" and y = "(''m'', [''a'', ''b''])"])
    with ne show False by contradiction
  qed
  show "fst (isCached now ''m'' [''a'', ''b''] (setCache t0 (getCacheKey ''m'' [''a:b'']) v t c))
       = (now - t0 < t)"
    unfolding eq by (simp add: isCached_def setCache_def AList.update_conv' isValidCache_def)
qed

theorem getCacheKey_not_injective_witness:
  "fst (isCached 5 ''m'' [''a'', ''b''] (setCache 0 (getCacheKey ''m'' [''a:b'']) (7::nat) 10 []))
     = True"
  using getCacheKey_not_injective [of 5 0 "7::nat" 10 "[]"]
  by (simp add: isCached_def getCacheKey_def)

section \<open>Properties of the API client\<close>

lemma getCacheKey_includes_last:
  "\<exists>pre suf. getCacheKey method [p] = pre @ p @ suf"
proof -
  have "getCacheKey method [p] = (method @ '':'') @ p @ []"
    by (simp add: getCacheKey_def)
  then show ?thesis by blast
qed

lemma invalidateProjectCache_id:
  "pid \<noteq> [] \<Longrightarrow> invalidateProjectCache (Some pid) c = invalidateCache pid c"
  by (simp add: invalidateProjectCache_def)

text \<open>Without an ID, or with the empty string, only the list and status entries go.\<close>

lemma invalidateProjectCache_no_id:
  "invalidateProjectCache (Some []) c = invalidateProjectCache None c"
  "invalidateProjectCache None c =
     filter (\<lambda>kv. \<not> str_includes (fst kv) ''listProjects''
                \<and> \<not> str_includes (fst kv) ''getProjectStatus'') c"
  by (simp_all add: invalidateProjectCache_def invalidateCache_filter conj_commute)

lemma uploadDataset_success:
  "fst (uploadDataset pid net c) = Inr res \<Longrightarrow>
   snd (uploadDataset pid net c) = invalidateProjectCache (Some pid) c"
  by (auto simp: uploadDataset_def split: FetchResult.splits if_splits sum.splits)

lemma startTraining_success:
  "fst (startTraining pid net c) = Inr res \<Longrightarrow>
   snd (startTraining pid net c) = invalidateProjectCache (Some pid) c"
  by (auto simp: startTraining_def split: FetchResult.splits if_splits sum.splits)

lemma deleteProject_success:
  "fst (deleteProject pid net c) = Inr res \<Longrightarrow>
   snd (deleteProject pid net c) = invalidateProjectCache (Some pid) c"
  by (auto simp: deleteProject_def split: FetchResult.splits if_splits sum.splits)

text \<open>The three mutating operations succeed exactly on an ok response whose body parses.\<close>

lemma uploadDataset_ok:
  "ok response \<Longrightarrow> json response = Inr body \<Longrightarrow>
   uploadDataset pid (Resolved response) c =
     (Inr (result body), invalidateProjectCache (Some pid) c)"
  by (simp add: uploadDataset_def)

lemma startTraining_ok:
  "ok response \<Longrightarrow> json response = Inr body \<Longrightarrow>
   startTraining pid (Resolved response) c =
     (Inr (result body), invalidateProjectCache (Some pid) c)"
  by (simp add: startTraining_def)

lemma deleteProject_ok:
  "ok response \<Longrightarrow> json response = Inr body \<Longrightarrow>
   deleteProject pid (Resolved response) c =
     (Inr (result body), invalidateProjectCache (Some pid) c)"
  by (simp add: deleteProject_def)

lemma uploadDataset_success_iff:
  "(\<exists>res. fst (uploadDataset pid net c) = Inr res) \<longleftrightarrow>
   (\<exists>response body. net = Resolved response \<and> ok response \<and> json response = Inr body)"
  by (auto simp: uploadDataset_def split: FetchResult.splits if_splits sum.splits)

lemma startTraining_success_iff:
  "(\<exists>res. fst (startTraining pid net c) = Inr res) \<longleftrightarrow>
   (\<exists>response body. net = Resolved response \<and> ok response \<and> json response = Inr body)"
  by (auto simp: startTraining_def split: FetchResult.splits if_splits sum.splits)

lemma deleteProject_success_iff:
  "(\<exists>res. fst (deleteProject pid net c) = Inr res) \<longleftrightarrow>
   (\<exists>response body. net = Resolved response \<and> ok response \<and> json response = Inr body)"
  by (auto simp: deleteProject_def split: FetchResult.splits if_splits sum.splits)

text \<open>
  Claim C4. A call of \<open>uploadDataset\<close>, \<open>startTraining\<close> or \<open>deleteProject\<close>
  with a project ID (one that passes the test \<^verbatim>\<open>if (projectId)\<close>, that is, a non-empty
  string) that gets an ok response with a body that parses returns the parsed result
  and leaves the cache with exactly the entries whose key does not contain the ID, in
  their order and each unchanged; these are the only calls of the three that succeed.
  Entries are removed one by one, the cache is not cleared. In particular the entry of
  \<open>getProjectStatus\<close> for that project is absent afterwards, whatever its remaining
  ttl was.
\<close>

theorem mutation_invalidates_project:
  fixes response :: "('r, 'b) Response" and c :: "'v Cache"
  assumes id: "projectId \<noteq> []"
    and ok: "ok response"
    and js: "json response = Inr body"
  shows "uploadDataset projectId (Resolved response) c
           = (Inr (result body), invalidateCache projectId c)
    \<and> startTraining projectId (Resolved response) c
           = (Inr (result body), invalidateCache projectId c)
    \<and> deleteProject projectId (Resolved response) c
           = (Inr (result body), invalidateCache projectId c)
    \<and> (\<forall>op (net :: ('r, 'b) FetchResult) (res :: 'r).
          op \<in> {uploadDataset, startTraining, deleteProject}
          \<and> fst (op projectId net c) = Inr res \<longrightarrow>
          snd (op projectId net c) = invalidateCache projectId c)
    \<and> (\<forall>k. map_of (invalidateCache projectId c) k =
          (if (\<exists>pre suf. k = pre @ projectId @ suf) then None else map_of c k))
    \<and> fst (getFromCache now (getCacheKey ''getProjectStatus'' [projectId])
          (invalidateCache projectId c)) = None"
proof -
  have u: "uploadDataset projectId (Resolved response) c
           = (Inr (result body), invalidateCache projectId c)"
    by (simp add: uploadDataset_ok [OF ok js] invalidateProjectCache_id [OF id])
  have s: "startTraining projectId (Resolved response) c
           = (Inr (result body), invalidateCache projectId c)"
    by (simp add: startTraining_ok [OF ok js] invalidateProjectCache_id [OF id])
  have d: "deleteProject projectId (Resolved response) c
           = (Inr (result body), invalidateCache projectId c)"
    by (simp add: deleteProject_ok [OF ok js] invalidateProjectCache_id [OF id])
  have g: "snd (op projectId net c) = invalidateCache projectId c"
    if "op \<in> {uploadDataset, startTraining, deleteProject} \<and> fst (op projectId net c) = Inr res"
    for op and net :: "('r, 'b) FetchResult" and res :: 'r
    using that id
    by (auto simp: invalidateProjectCache_id
        dest: uploadDataset_success startTraining_success deleteProject_success)
  have m: "map_of (invalidateCache projectId c) k =
          (if (\<exists>pre suf. k = pre @ projectId @ suf) then None else map_of c k)" for k
    by (simp add: map_of_invalidateCache str_includes_iff)
  have "map_of (invalidateCache projectId c) (getCacheKey ''getProjectStatus'' [projectId]) = None"
    using m getCacheKey_includes_last [of "''getProjectStatus''" projectId] by simp
  then have a: "fst (getFromCache now (getCacheKey ''getProjectStatus'' [projectId])
          (invalidateCache projectId c)) = None"
    by (simp add: getFromCache_result)
  from u s d g m a show ?thesis by blast
qed

theorem mutation_invalidates_project_witness:
  "uploadDataset ''p1''
      (Resolved \<lparr>ok = True, Response.status = 200, statusText = ''OK'',
                 json = Inr \<lparr>detail = [], result = ''done''\<rparr>, blob = ()\<rparr>)
      (setCache 0 ''listProjects:20:0'' ''list'' 120000
        (setCache 0 (getCacheKey ''getProjectStatus'' [''p1'']) ''ready'' (30 * 1000) []))
     = (Inr ''done'', [(''listProjects:20:0'', \<lparr>data = ''list'', timestamp = 0, ttl = 120000\<rparr>)])
   \<and> startTraining ''p1''
      (Resolved \<lparr>ok = True, Response.status = 200, statusText = ''OK'',
                 json = Inr \<lparr>detail = [], result = ''done''\<rparr>, blob = ()\<rparr>)
      (setCache 0 ''listProjects:20:0'' ''list'' 120000
        (setCache 0 (getCacheKey ''getProjectStatus'' [''p1'']) ''ready'' (30 * 1000) []))
     = (Inr ''done'', [(''listProjects:20:0'', \<lparr>data = ''list'', timestamp = 0, ttl = 120000\<rparr>)])
   \<and> deleteProject ''p1''
      (Resolved \<lparr>ok = True, Response.status = 200, statusText = ''OK'',
                 json = Inr \<lparr>detail = [], result = ''done''\<rparr>, blob = ()\<rparr>)
      (setCache 0 ''listProjects:20:0'' ''list'' 120000
        (setCache 0 (getCacheKey ''getProjectStatus'' [''p1'']) ''ready'' (30 * 1000) []))
     = (Inr ''done'', [(''listProjects:20:0'', \<lparr>data = ''list'', timestamp = 0, ttl = 120000\<rparr>)])
   \<and> fst (getFromCache 5 (getCacheKey ''getProjectStatus'' [''p1''])
          (setCache 0 ''listProjects:20:0'' ''list'' 120000
            (setCache 0 (getCacheKey ''getProjectStatus'' [''p1'']) ''ready'' (30 * 1000) [])))
     = Some ''ready''
   \<and> fst (getFromCache 5 (getCacheKey ''getProjectStatus'' [''p1''])
          [(''listProjects:20:0'', \<lparr>data = ''list'', timestamp = 0, ttl = 120000\<rparr>)])
     = None"
proof -
  let ?body = "\<lparr>detail = [], result = ''done''\<rparr>"
  let ?response = "\<lparr>ok = True, Response.status = 200, statusText = ''OK'',
                 json = Inr ?body, blob = ()\<rparr>"
  let ?c = "setCache 0 ''listProjects:20:0'' ''list'' 120000
        (setCache 0 (getCacheKey ''getProjectStatus'' [''p1'']) ''ready'' (30 * 1000) [])"
  let ?c' = "[(''listProjects:20:0'', \<lparr>data = ''list'', timestamp = 0, ttl = 120000\<rparr>)]"
  have id: "''p1'' \<noteq> []" by simp
  have ok: "ok ?response" by simp
  have js: "json ?response = Inr ?body" by simp
  have inv: "invalidateCache ''p1'' ?c = ?c'"
    by (simp add: invalidateCache_def setCache_def getCacheKey_def AList.delete_eq)
  have res: "result ?body = ''done''" by simp
  have before: "fst (getFromCache 5 (getCacheKey ''getProjectStatus'' [''p1'']) ?c) = Some ''ready''"
    by (simp add: getFromCache_def setCache_def getCacheKey_def isValidCache_def)
  note inst = mutation_invalidates_project [OF id ok js, of ?c 5, unfolded inv res]
  note u = inst [THEN conjunct1]
  note s = inst [THEN conjunct2, THEN conjunct1]
  note d = inst [THEN conjunct2, THEN conjunct2, THEN conjunct1]
  note a = inst [THEN conjunct2, THEN conjunct2, THEN conjunct2, THEN conjunct2, THEN conjunct2]
  from u s d before a show ?thesis by (intro conjI)
qed

lemma getFromCache_miss_store:
  "fst (getFromCache now k c) = None \<Longrightarrow> map_of (snd (getFromCache now k c)) k = None"
  by (auto simp: getFromCache_def AList.delete_conv split: option.splits if_splits)

lemma getFromCache_hit:
  "map_of c k = Some e \<Longrightarrow> now - timestamp e < ttl e \<Longrightarrow>
   getFromCache now k c = (Some (data e), c)"
  by (simp add: getFromCache_def isValidCache_def)

lemma getTrainingSummary_hit:
  "fst (getFromCache now (getCacheKey ''getTrainingSummary'' [projectId, trainingId]) c) = Some v \<Longrightarrow>
   getTrainingSummary now now' projectId trainingId net c = (Inr v, c)"
  using getFromCache_unchanged [of now "getCacheKey ''getTrainingSummary'' [projectId, trainingId]" c]
  by (simp add: getTrainingSummary_def Let_def split_def)

lemma getTrainingSummary_miss:
  assumes "fst (getFromCache now (getCacheKey ''getTrainingSummary'' [projectId, trainingId]) c) = None"
    and "ok response" and "json response = Inr body"
  shows "getTrainingSummary now now' projectId trainingId (Resolved response) c =
     (Inr (result body),
      let cacheKey = getCacheKey ''getTrainingSummary'' [projectId, trainingId];
          cache1 = snd (getFromCache now cacheKey c) in
      if ai_summary_status (result body) = ai_completed
      then setCache now' cacheKey (result body) TRAINING_SUMMARY_TTL cache1
      else if ai_summary_status (result body) = ai_generating
      then setCache now' cacheKey (result body) (10 * 1000) cache1
      else cache1)"
  using assms by (simp add: getTrainingSummary_def Let_def split_def)

lemma map_of_setCache_same:
  "map_of (setCache t0 k v t c) k = Some \<lparr>data = v, timestamp = t0, ttl = t\<rparr>"
  by (simp add: setCache_def AList.update_conv')

text \<open>
  Claim C3. A call of \<open>getTrainingSummary\<close> that goes to the network and succeeds
  returns the parsed summary. If its \<open>ai_summary_status\<close> is \<open>completed\<close>, the
  summary is stored under the call's key with a ttl of 30 minutes, and every call
  less than 30 minutes after the insertion returns that same summary from the cache,
  whatever the network would answer. If the status is \<open>generating\<close>, it is stored with
  a ttl of 10 seconds: calls less than 10 seconds later return it, and from 10 seconds
  on the entry is expired. For any other status nothing is stored: the key has no
  entry afterwards. (A call that finds a valid entry returns it and leaves the cache
  alone: \<open>getTrainingSummary_hit\<close>.)
\<close>

theorem getTrainingSummary_caching:
  fixes response :: "('x TrainingSummary_scheme, 'b) Response"
  assumes miss: "fst (getFromCache now (getCacheKey ''getTrainingSummary'' [projectId, trainingId]) c) = None"
    and ok: "ok response" and js: "json response = Inr body"
  shows "fst (getTrainingSummary now now' projectId trainingId (Resolved response) c) = Inr (result body)
    \<and> (let key = getCacheKey ''getTrainingSummary'' [projectId, trainingId];
            c' = snd (getTrainingSummary now now' projectId trainingId (Resolved response) c) in
         (ai_summary_status (result body) = ai_completed \<longrightarrow>
            map_of c' key = Some \<lparr>data = result body, timestamp = now', ttl = 30 * 60 * 1000\<rparr>
            \<and> (\<forall>t t' (net :: ('x TrainingSummary_scheme, 'b) FetchResult). t - now' < 30 * 60 * 1000 \<longrightarrow>
                  getTrainingSummary t t' projectId trainingId net c' = (Inr (result body), c')))
       \<and> (ai_summary_status (result body) = ai_generating \<longrightarrow>
            map_of c' key = Some \<lparr>data = result body, timestamp = now', ttl = 10 * 1000\<rparr>
            \<and> (\<forall>t t' (net :: ('x TrainingSummary_scheme, 'b) FetchResult). t - now' < 10 * 1000 \<longrightarrow>
                  getTrainingSummary t t' projectId trainingId net c' = (Inr (result body), c'))
            \<and> (\<forall>t. 10 * 1000 \<le> t - now' \<longrightarrow> fst (getFromCache t key c') = None))
       \<and> (ai_summary_status (result body) \<noteq> ai_completed
            \<and> ai_summary_status (result body) \<noteq> ai_generating \<longrightarrow>
            c' = snd (getFromCache now key c) \<and> map_of c' key = None))"
proof -
  define key where "key = getCacheKey ''getTrainingSummary'' [projectId, trainingId]"
  define c1 where "c1 = snd (getFromCache now key c)"
  define c' where "c' = snd (getTrainingSummary now now' projectId trainingId (Resolved response) c)"
  note run = getTrainingSummary_miss [OF miss ok js, of now']
  have res: "fst (getTrainingSummary now now' projectId trainingId (Resolved response) c) = Inr (result body)"
    by (simp add: run)
  have completed: "map_of c' key = Some \<lparr>data = result body, timestamp = now', ttl = 30 * 60 * 1000\<rparr>
      \<and> (\<forall>t t' (net :: ('x TrainingSummary_scheme, 'b) FetchResult). t - now' < 30 * 60 * 1000 \<longrightarrow>
            getTrainingSummary t t' projectId trainingId net c' = (Inr (result body), c'))"
    if st: "ai_summary_status (result body) = ai_completed"
  proof -
    have c'_eq: "c' = setCache now' key (result body) TRAINING_SUMMARY_TTL c1"
      unfolding c'_def c1_def key_def using st by (simp add: run Let_def)
    have m: "map_of c' key = Some \<lparr>data = result body, timestamp = now', ttl = 30 * 60 * 1000\<rparr>"
      unfolding c'_eq by (simp add: map_of_setCache_same TRAINING_SUMMARY_TTL_def)
    have "getTrainingSummary t t' projectId trainingId net c' = (Inr (result body), c')"
      if "t - now' < 30 * 60 * 1000" for t t' and net :: "('x TrainingSummary_scheme, 'b) FetchResult"
    proof -
      have "getFromCache t key c' = (Some (result body), c')"
        using getFromCache_hit [OF m, of t] that by simp
      then show ?thesis
        using getTrainingSummary_hit [of t projectId trainingId c' "result body" t' net]
        by (simp add: key_def)
    qed
    with m show ?thesis by blast
  qed
  have generating: "map_of c' key = Some \<lparr>data = result body, timestamp = now', ttl = 10 * 1000\<rparr>
      \<and> (\<forall>t t' (net :: ('x TrainingSummary_scheme, 'b) FetchResult). t - now' < 10 * 1000 \<longrightarrow>
            getTrainingSummary t t' projectId trainingId net c' = (Inr (result body), c'))
      \<and> (\<forall>t. 10 * 1000 \<le> t - now' \<longrightarrow> fst (getFromCache t key c') = None)"
    if st: "ai_summary_status (result body) = ai_generating"
  proof -
    have c'_eq: "c' = setCache now' key (result body) (10 * 1000) c1"
      unfolding c'_def c1_def key_def using st by (simp add: run Let_def)
    have m: "map_of c' key = Some \<lparr>data = result body, timestamp = now', ttl = 10 * 1000\<rparr>"
      unfolding c'_eq by (simp add: map_of_setCache_same)
    have hit: "getTrainingSummary t t' projectId trainingId net c' = (Inr (result body), c')"
      if "t - now' < 10 * 1000" for t t' and net :: "('x TrainingSummary_scheme, 'b) FetchResult"
    proof -
      have "getFromCache t key c' = (Some (result body), c')"
        using getFromCache_hit [OF m, of t] that by simp
      then show ?thesis
        using getTrainingSummary_hit [of t projectId trainingId c' "result body" t' net]
        by (simp add: key_def)
    qed
    have exp: "fst (getFromCache t key c') = None" if "10 * 1000 \<le> t - now'" for t
      using that by (simp add: getFromCache_result m)
    from m hit exp show ?thesis by blast
  qed
  have other: "c' = snd (getFromCache now key c) \<and> map_of c' key = None"
    if st: "ai_summary_status (result body) \<noteq> ai_completed \<and> ai_summary_status (result body) \<noteq> ai_generating"
  proof -
    have c'_eq: "c' = snd (getFromCache now key c)"
      unfolding c'_def key_def using st by (simp add: run Let_def)
    moreover have "map_of (snd (getFromCache now key c)) key = None"
      using miss unfolding key_def by (rule getFromCache_miss_store)
    ultimately show ?thesis by simp
  qed
  from res completed generating other show ?thesis
    unfolding Let_def key_def [symmetric] c'_def [symmetric] by blast
qed

theorem getTrainingSummary_caching_witness:
  "getTrainingSummary 0 100 ''p1'' ''t1''
      (Resolved \<lparr>ok = True, Response.status = 200, statusText = ''OK'',
         json = Inr \<lparr>detail = [], result =
           \<lparr>TrainingSummary.project_id = ''p1'', TrainingSummary.training_id = ''t1'',
            project_name = ''demo'', ai_summary_status = ai_completed,
            ai_summary_error = None, gpu_used = ''T4''\<rparr>\<rparr>, blob = ()\<rparr>) []
     = (Inr \<lparr>TrainingSummary.project_id = ''p1'', TrainingSummary.training_id = ''t1'',
            project_name = ''demo'', ai_summary_status = ai_completed,
            ai_summary_error = None, gpu_used = ''T4''\<rparr>,
        [(''getTrainingSummary:p1:t1'',
          \<lparr>data = \<lparr>TrainingSummary.project_id = ''p1'', TrainingSummary.training_id = ''t1'',
            project_name = ''demo'', ai_summary_status = ai_completed,
            ai_summary_error = None, gpu_used = ''T4''\<rparr>, timestamp = 100, ttl = 1800000\<rparr>)])
   \<and> getTrainingSummary 1800099 1800200 ''p1'' ''t1'' (Rejected ''Failed to fetch'' :: (TrainingSummary, unit) FetchResult)
        [(''getTrainingSummary:p1:t1'',
          \<lparr>data = \<lparr>TrainingSummary.project_id = ''p1'', TrainingSummary.training_id = ''t1'',
            project_name = ''demo'', ai_summary_status = ai_completed,
            ai_summary_error = None, gpu_used = ''T4''\<rparr>, timestamp = 100, ttl = 1800000\<rparr>)]
     = (Inr \<lparr>TrainingSummary.project_id = ''p1'', TrainingSummary.training_id = ''t1'',
            project_name = ''demo'', ai_summary_status = ai_completed,
            ai_summary_error = None, gpu_used = ''T4''\<rparr>,
        [(''getTrainingSummary:p1:t1'',
          \<lparr>data = \<lparr>TrainingSummary.project_id = ''p1'', TrainingSummary.training_id = ''t1'',
            project_name = ''demo'', ai_summary_status = ai_completed,
            ai_summary_error = None, gpu_used = ''T4''\<rparr>, timestamp = 100, ttl = 1800000\<rparr>)])"
proof -
  let ?S = "\<lparr>TrainingSummary.project_id = ''p1'', TrainingSummary.training_id = ''t1'',
            project_name = ''demo'', ai_summary_status = ai_completed,
            ai_summary_error = None, gpu_used = ''T4''\<rparr>"
  let ?B = "\<lparr>detail = [], result = ?S\<rparr>"
  let ?R = "\<lparr>ok = True, Response.status = 200, statusText = ''OK'', json = Inr ?B, blob = ()\<rparr>"
  let ?c' = "[(''getTrainingSummary:p1:t1'', \<lparr>data = ?S, timestamp = 100, ttl = 1800000\<rparr>)]"
  have miss: "fst (getFromCache 0 (getCacheKey ''getTrainingSummary'' [''p1'', ''t1'']) ([] :: TrainingSummary Cache)) = None"
    by (simp add: getFromCache_def)
  have ok: "ok ?R" by simp
  have js: "json ?R = Inr ?B" by simp
  have run: "getTrainingSummary 0 100 ''p1'' ''t1'' (Resolved ?R) [] = (Inr ?S, ?c')"
    by (simp add: getTrainingSummary_def getFromCache_def getCacheKey_def setCache_def
        TRAINING_SUMMARY_TTL_def)
  have st: "ai_summary_status (result ?B) = ai_completed" by simp
  note inst = getTrainingSummary_caching [OF miss ok js, of 100, unfolded Let_def run snd_conv]
  from inst st have "\<forall>t t' (net :: (TrainingSummary, unit) FetchResult). t - 100 < 30 * 60 * 1000 \<longrightarrow>
        getTrainingSummary t t' ''p1'' ''t1'' net ?c' = (Inr (result ?B), ?c')"
    by blast
  then have "getTrainingSummary 1800099 1800200 ''p1'' ''t1'' (Rejected ''Failed to fetch'' :: (TrainingSummary, unit) FetchResult) ?c'
      = (Inr (result ?B), ?c')"
    by simp
  with run show ?thesis by simp
qed

lemma decimal_502: "decimal 502 = ''502''"
  by (simp add: decimal.simps)

lemma httpError_parsed:
  "json response = Inr errorData \<Longrightarrow>
   httpError response =
     Error (if detail errorData \<noteq> [] then detail errorData
            else ''HTTP error! status: '' @ decimal (Response.status response))"
  by (simp add: httpError_def)

lemma httpError_unparsable:
  "json response = Inl parseMessage \<Longrightarrow> httpError response = SyntaxError parseMessage"
  by (simp add: httpError_def)

lemma downloadError_message:
  "downloadError response =
     Error (case json response of
              Inr errorData \<Rightarrow>
                if detail errorData \<noteq> [] then detail errorData
                else ''HTTP error! status: '' @ decimal (Response.status response)
            | Inl parseMessage \<Rightarrow>
                if statusText response \<noteq> [] then statusText response
                else ''HTTP error! status: '' @ decimal (Response.status response))"
  by (simp add: downloadError_def Let_def split: sum.splits)

text \<open>
  Claim C8, evaluated. A 502 whose body is not JSON: \<open>createProject\<close> throws the
  parser's \<open>SyntaxError\<close>, whose message is the parser's and comes neither from a
  \<open>detail\<close> field nor from the status; the two downloads, which guard the parse, throw
  an error with the status text, or with the status-code message when the status text
  is empty. With a body that parses, \<open>createProject\<close> throws the detail, or the
  status-code message when there is none.
\<close>

theorem createProject_unparsable_error_body:
  "createProject
      (Resolved \<lparr>ok = False, Response.status = 502, statusText = ''Bad Gateway'',
                 json = Inl parseMessage, blob = b\<rparr>) c
     = (Inl (SyntaxError parseMessage), c)
   \<and> downloadModelWeights
      (Resolved \<lparr>ok = False, Response.status = 502, statusText = ''Bad Gateway'',
                 json = Inl parseMessage, blob = b\<rparr>)
     = Inl (Error ''Bad Gateway'')
   \<and> downloadProjectCode
      (Resolved \<lparr>ok = False, Response.status = 502, statusText = [],
                 json = Inl parseMessage, blob = b\<rparr>)
     = Inl (Error ''HTTP error! status: 502'')
   \<and> createProject
      (Resolved \<lparr>ok = False, Response.status = 502, statusText = ''Bad Gateway'',
                 json = Inr \<lparr>detail = [], result = r\<rparr>, blob = b\<rparr>) c
     = (Inl (Error ''HTTP error! status: 502''), c)
   \<and> createProject
      (Resolved \<lparr>ok = False, Response.status = 502, statusText = ''Bad Gateway'',
                 json = Inr \<lparr>detail = ''upstream down'', result = r\<rparr>, blob = b\<rparr>) c
     = (Inl (Error ''upstream down''), c)"
  by (simp add: createProject_def httpError_def downloadModelWeights_def downloadProjectCode_def
      downloadError_def decimal_502)

section \<open>Properties of the pollers\<close>

lemma fetchTrainingStatus_returns: "fst (fetchTrainingStatus apiResult s) = Inr ()"
  by (simp add: fetchTrainingStatus_def split: sum.splits)

lemma fetchTrainingLogs_returns: "fst (fetchTrainingLogs apiResult s) = Inr ()"
  by (simp add: fetchTrainingLogs_def split: sum.splits)

lemma fetchTrainingStatus_isMounted:
  "isMounted (snd (fetchTrainingStatus apiResult s)) = isMounted s"
  by (simp add: fetchTrainingStatus_def split: sum.splits)

lemma statusTimer_mounted:
  assumes "isMounted r"
  shows "statusTimer r apiResult p =
     p\<lparr>timer := scheduleStatusFetch r (vars p),
       state := snd (fetchTrainingStatus apiResult (state p)),
       fetches := fetches p + 1\<rparr>"
  using assms fetchTrainingStatus_returns [of apiResult "state p"]
  by (cases "fetchTrainingStatus apiResult (state p)") (simp add: statusTimer_def)

lemma logTimer_mounted:
  assumes "isMounted r"
  shows "logTimer r apiResult p =
     p\<lparr>timer := scheduleLogFetch r ((vars p)\<lparr>failureCount := 0\<rparr>),
       vars := (vars p)\<lparr>failureCount := 0\<rparr>,
       state := snd (fetchTrainingLogs apiResult (state p)),
       fetches := fetches p + 1\<rparr>"
  using assms fetchTrainingLogs_returns [of apiResult "state p"]
  by (cases "fetchTrainingLogs apiResult (state p)") (simp add: logTimer_def Let_def)

lemma scheduleStatusFetch_active:
  "isMounted r \<Longrightarrow>
   map_option status (trainingData r) = Some running
     \<or> map_option status (trainingData r) = Some queued \<Longrightarrow>
   scheduleStatusFetch r v = Some (statusPollInterval v)"
  by (auto simp: scheduleStatusFetch_def)

lemma scheduleLogFetch_active:
  "isMounted r \<Longrightarrow>
   map_option status (trainingData r) = Some running
     \<or> map_option status (trainingData r) = Some queued \<Longrightarrow>
   scheduleLogFetch r v = Some (logPollInterval v)"
  by (auto simp: scheduleLogFetch_def)

lemma pollAI_stops_at_terminal:
  assumes "ai_summary_status summary = ai_completed \<or> ai_summary_status summary = ai_failed"
  shows "aiTimer (pollAI (Inr summary) p) = None
    \<and> runAIPoll rs (pollAI (Inr summary) p) = pollAI (Inr summary) p"
proof -
  have "aiTimer (pollAI (Inr summary) p) = None"
    using assms by (auto simp: pollAI_def Let_def)
  then show ?thesis by (cases rs) simp_all
qed

lemma statusTimer_reschedules:
  assumes "isMounted r"
    and "map_option status (trainingData r) = Some running
         \<or> map_option status (trainingData r) = Some queued"
  shows "statusTimer r apiResult p =
     p\<lparr>timer := Some (statusPollInterval (vars p)),
       state := snd (fetchTrainingStatus apiResult (state p)),
       fetches := fetches p + 1\<rparr>"
  using assms by (simp add: statusTimer_mounted scheduleStatusFetch_active)

lemma logTimer_reschedules:
  assumes "isMounted r"
    and "map_option status (trainingData r) = Some running
         \<or> map_option status (trainingData r) = Some queued"
  shows "logTimer r apiResult p =
     p\<lparr>timer := Some (logPollInterval (vars p)),
       vars := (vars p)\<lparr>failureCount := 0\<rparr>,
       state := snd (fetchTrainingLogs apiResult (state p)),
       fetches := fetches p + 1\<rparr>"
  using assms by (simp add: logTimer_mounted scheduleLogFetch_active)

text \<open>A loop started in a render that is mounted and running or queued: every timer
  that fires issues its call and sets the next timer with the same delay, whatever the
  calls return.\<close>

lemma runStatusPoll_never_stops:
  assumes "isMounted r"
    and "map_option status (trainingData r) = Some running
         \<or> map_option status (trainingData r) = Some queued"
    and "timer p = Some (statusPollInterval (vars p))"
  shows "fetches (runStatusPoll r (map TimerFires rs) p) = fetches p + length rs
    \<and> timer (runStatusPoll r (map TimerFires rs) p) = Some (statusPollInterval (vars p))
    \<and> vars (runStatusPoll r (map TimerFires rs) p) = vars p"
  using assms(3)
proof (induction rs arbitrary: p)
  case Nil
  then show ?case by simp
next
  case (Cons x rs)
  let ?q = "statusTimer r x (p\<lparr>waited := waited p @ [statusPollInterval (vars p)]\<rparr>)"
  have q: "timer ?q = Some (statusPollInterval (vars ?q)) \<and> vars ?q = vars p
           \<and> fetches ?q = fetches p + 1"
    by (simp add: statusTimer_reschedules [OF assms(1,2)])
  with Cons.IH [of ?q] Cons.prems show ?case by simp
qed

lemma runLogPoll_constant_delay:
  assumes "isMounted r"
    and "map_option status (trainingData r) = Some running
         \<or> map_option status (trainingData r) = Some queued"
    and "timer p = Some (logPollInterval (vars p))"
  shows "waited (runLogPoll r (map TimerFires rs) p)
           = waited p @ replicate (length rs) (logPollInterval (vars p))
    \<and> timer (runLogPoll r (map TimerFires rs) p) = Some (logPollInterval (vars p))
    \<and> logPollInterval (vars (runLogPoll r (map TimerFires rs) p)) = logPollInterval (vars p)"
  using assms(3)
proof (induction rs arbitrary: p)
  case Nil
  then show ?case by simp
next
  case (Cons x rs)
  let ?q = "logTimer r x (p\<lparr>waited := waited p @ [logPollInterval (vars p)]\<rparr>)"
  have q: "timer ?q = Some (logPollInterval (vars ?q))
           \<and> logPollInterval (vars ?q) = logPollInterval (vars p)
           \<and> waited ?q = waited p @ [logPollInterval (vars p)]"
    by (simp add: logTimer_reschedules [OF assms(1,2)])
  with Cons.IH [of ?q] Cons.prems show ?case
    by (simp add: replicate_app_Cons_same)
qed

text \<open>
  Claim C5, evaluated on the training monitor. The effect ran in a render whose
  \<open>trainingData.status\<close> was \<open>running\<close>. The API answers \<open>running\<close>, \<open>running\<close>,
  \<open>completed\<close>: after the third fetch the component's cell holds \<open>completed\<close>, and
  the loop has set a timer again, because \<open>scheduleStatusFetch\<close> tests the status of
  its own render; the timer fires and a fourth fetch is issued.
\<close>

theorem status_poll_keeps_polling_after_completed:
  "(let resp = (\<lambda>s. \<lparr>TrainingResponse.training_id = ''t1'', TrainingResponse.project_id = ''p1'',
                     status = s, message = None\<rparr>);
        r = \<lparr>trainingData = Some (resp running), logs = [], lastLogUpdate = None,
             isLoading = False, error = [], isAutoScroll = True, isMounted = True\<rparr>;
        p3 = runStatusPoll r
               [TimerFires (Inr (resp running)), TimerFires (Inr (resp running)),
                TimerFires (Inr (resp completed))]
               (startStatusPoll r)
    in fetches p3 = 3
       \<and> map_option status (trainingData (state p3)) = Some completed
       \<and> timer p3 = Some 8000
       \<and> fetches (runStatusPoll r [TimerFires (Inr (resp completed))] p3) = 4)"
  by (simp add: Let_def startStatusPoll_def initialVars_def scheduleStatusFetch_def
      statusTimer_def fetchTrainingStatus_def)

text \<open>
  Claim C6, evaluated on the log poller. Three timers fire and each call of
  \<open>getTrainingLogs\<close> fails at the transport. \<open>fetchTrainingLogs\<close> catches the error,
  so the callback's own \<open>catch\<close> is never entered: every delay is the initial 3000 ms,
  \<open>logPollInterval\<close> is unchanged and \<open>failureCount\<close> is 0.
\<close>

theorem log_poll_delay_after_failures:
  "(let r = \<lparr>trainingData = Some \<lparr>TrainingResponse.training_id = ''t1'',
                 TrainingResponse.project_id = ''p1'', status = running, message = None\<rparr>,
             logs = [], lastLogUpdate = None,
             isLoading = False, error = [], isAutoScroll = True, isMounted = True\<rparr>;
        p3 = runLogPoll r
               [TimerFires (Inl (TypeError ''Failed to fetch'')),
                TimerFires (Inl (TypeError ''Failed to fetch'')),
                TimerFires (Inl (TypeError ''Failed to fetch''))]
               (startLogPoll r)
    in waited p3 = [3000, 3000, 3000]
       \<and> timer p3 = Some 3000
       \<and> logPollInterval (vars p3) = 3000
       \<and> failureCount (vars p3) = 0
       \<and> fetches p3 = 3)"
  by (simp add: Let_def startLogPoll_def initialVars_def scheduleLogFetch_def
      logTimer_def fetchTrainingLogs_def)

text \<open>
  Claim C7, evaluated on the training monitor. The component unmounts while the status
  timer is pending. The cell \<open>isMounted\<close> is false afterwards, but the callback reads
  the \<open>isMounted\<close> of its render: both later timers fire, each issues its API call and
  sets the next timer.
\<close>

theorem status_poll_after_unmount:
  "(let r = \<lparr>trainingData = Some \<lparr>TrainingResponse.training_id = ''t1'',
                 TrainingResponse.project_id = ''p1'', status = running, message = None\<rparr>,
             logs = [], lastLogUpdate = None,
             isLoading = False, error = [], isAutoScroll = True, isMounted = True\<rparr>;
        p = runStatusPoll r
               [Unmount,
                TimerFires (Inr \<lparr>TrainingResponse.training_id = ''t1'',
                 TrainingResponse.project_id = ''p1'', status = running, message = None\<rparr>),
                TimerFires (Inl (TypeError ''Failed to fetch''))]
               (startStatusPoll r)
    in \<not> isMounted (state p)
       \<and> fetches p = 2
       \<and> waited p = [8000, 8000]
       \<and> timer p = Some 8000)"
  by (simp add: Let_def startStatusPoll_def initialVars_def scheduleStatusFetch_def
      statusTimer_def fetchTrainingStatus_def)

end
